theory Spec2Isabelle
  imports Main
begin

section \<open>Strings\<close>

text \<open>
  A JavaScript string is modelled as a \<^typ>\<open>string\<close>, one \<^typ>\<open>char\<close> per code unit.
  The regular expressions of the source are the two character classes \<^verbatim>\<open>\d\<close> (a
  decimal digit) and \<^verbatim>\<open>\D\<close> (anything else).
\<close>

definition is_digit :: "char \<Rightarrow> bool" where
  "is_digit c = (c \<in> set ''0123456789'')"

text \<open>\<^verbatim>\<open>s.slice(a, b)\<close> and \<^verbatim>\<open>s.slice(a)\<close> for indices that are not negative.\<close>

definition slice :: "nat \<Rightarrow> nat \<Rightarrow> string \<Rightarrow> string" where
  "slice a b s = take (b - a) (drop a s)"

definition slice_from :: "nat \<Rightarrow> string \<Rightarrow> string" where
  "slice_from a s = drop a s"

text \<open>\<^verbatim>\<open>value.replace(/\D/g, "")\<close>: every character that is not a digit is removed.\<close>

definition strip_non_digits :: "string \<Rightarrow> string" where
  "strip_non_digits s = filter is_digit s"

section \<open>OTP digit input (OTPInput.tsx)\<close>

text \<open>
  An array write \<^verbatim>\<open>xs[i] = v\<close>. Past the end JavaScript extends the array and leaves
  holes before the new cell; a hole is written as the empty string, which is how
  \<^verbatim>\<open>join\<close> reads it. The widget only writes at the positions of its four cells.
\<close>

definition array_set :: "string list \<Rightarrow> nat \<Rightarrow> string \<Rightarrow> string list" where
  "array_set xs i v =
     (if i < length xs then xs[i := v] else xs @ replicate (i - length xs) '''' @ [v])"

text \<open>
  \<^verbatim>\<open>handleInputChange(index, inputValue)\<close>: a value longer than one character is
  ignored (\<open>None\<close>: \<^verbatim>\<open>onChange\<close> is not called). Otherwise the result is the array
  handed to \<^verbatim>\<open>onChange\<close> and the cell that receives focus, if any.
\<close>

definition handleInputChange ::
  "string list \<Rightarrow> nat \<Rightarrow> string \<Rightarrow> (string list \<times> nat option) option" where
  "handleInputChange value index inputValue =
     (if length inputValue > 1 then None
      else Some (array_set value index inputValue,
                 if inputValue \<noteq> [] \<and> index < 3 then Some (index + 1) else None))"

text \<open>
  The loop of \<^verbatim>\<open>handlePaste\<close>:
  \<^verbatim>\<open>for (let i = 0; i < pastedData.length; i++) if (/\d/.test(pastedData[i])) newOtp[i] = pastedData[i]\<close>.
\<close>

function paste_loop :: "nat \<Rightarrow> string \<Rightarrow> string list \<Rightarrow> string list" where
  "paste_loop i pastedData newOtp =
     (if i < length pastedData
      then paste_loop (Suc i) pastedData
             (if is_digit (pastedData ! i) then array_set newOtp i [pastedData ! i] else newOtp)
      else newOtp)"
  by pat_completeness auto
termination
  by (relation "measure (\<lambda>(i, pastedData, newOtp). length pastedData - i)") auto

declare paste_loop.simps [simp del]

text \<open>
  \<^verbatim>\<open>handlePaste\<close> on the clipboard text: the array handed to \<^verbatim>\<open>onChange\<close> and the
  index of the cell that receives focus.
\<close>

definition handlePaste :: "string \<Rightarrow> string list \<times> nat" where
  "handlePaste clipboard =
     (let pastedData = slice 0 4 clipboard;
          newOtp = paste_loop 0 pastedData ['''', '''', '''', ''''];
          nextIndex = min (length pastedData) 3
      in (newOtp, nextIndex))"

text \<open>
  The paste behaviour in the specification's words: keep only the decimal digits of the
  clipboard text, truncate to four characters, distribute them left to right into a
  fresh array of four cells, and focus the cell at \<open>min(pastedDigitCount, 3)\<close>.
\<close>

definition paste_spec :: "string \<Rightarrow> string list \<times> nat" where
  "paste_spec clipboard =
     (let ds = take 4 (filter is_digit clipboard)
      in (map (\<lambda>c. [c]) ds @ replicate (4 - length ds) '''', min (length ds) 3))"

section \<open>Phone formatter (PhoneNumberInput.tsx)\<close>

definition formatPhoneNumber :: "string \<Rightarrow> string \<Rightarrow> string" where
  "formatPhoneNumber value countryCode =
     (let digits = strip_non_digits value in
      if countryCode = ''+1'' then
        (if length digits \<le> 3 then digits
         else if length digits \<le> 6 then ''('' @ slice 0 3 digits @ '') '' @ slice_from 3 digits
         else ''('' @ slice 0 3 digits @ '') '' @ slice 3 6 digits @ ''-'' @ slice 6 10 digits)
      else if countryCode = ''+44'' then
        (if length digits \<le> 4 then digits
         else if length digits \<le> 7 then slice 0 4 digits @ '' '' @ slice_from 4 digits
         else slice 0 4 digits @ '' '' @ slice 4 7 digits @ '' '' @ slice 7 11 digits)
      else if countryCode = ''+971'' then
        (if length digits \<le> 3 then digits
         else if length digits \<le> 7 then ''('' @ slice 0 3 digits @ '') - '' @ slice_from 3 digits
         else ''('' @ slice 0 3 digits @ '') - '' @ slice 3 7 digits)
      else
        (if length digits \<le> 3 then digits
         else if length digits \<le> 6 then slice 0 3 digits @ '' '' @ slice_from 3 digits
         else slice 0 3 digits @ '' '' @ slice 3 6 digits @ '' '' @ slice 6 10 digits))"

text \<open>
  The grouping templates in the specification's words. A template has a first group
  (with the text that opens and closes it) and further groups, each with the separator
  written before it. Rendering is progressive: digits that fit into the first group
  are shown bare; beyond that the first group is written with its delimiters and each
  further group appears, after its separator, as soon as it has a digit.
\<close>

record template =
  lead_text :: string
  first_group :: nat
  trail_text :: string
  more_groups :: "(string \<times> nat) list"

fun render_groups :: "(string \<times> nat) list \<Rightarrow> string \<Rightarrow> string" where
  "render_groups [] ds = []"
| "render_groups ((sep, n) # gs) ds =
     (if ds = [] then [] else sep @ take n ds @ render_groups gs (drop n ds))"

definition render_template :: "template \<Rightarrow> string \<Rightarrow> string" where
  "render_template t ds =
     (if length ds \<le> first_group t then ds
      else lead_text t @ take (first_group t) ds @ trail_text t
           @ render_groups (more_groups t) (drop (first_group t) ds))"

definition template_for :: "string \<Rightarrow> template" where
  "template_for dialCode =
     (if dialCode = ''+1'' then
        \<lparr>lead_text = ''('', first_group = 3, trail_text = '')'', more_groups = [('' '', 3), (''-'', 4)]\<rparr>
      else if dialCode = ''+44'' then
        \<lparr>lead_text = '''', first_group = 4, trail_text = '''', more_groups = [('' '', 3), ('' '', 4)]\<rparr>
      else if dialCode = ''+971'' then
        \<lparr>lead_text = ''('', first_group = 3, trail_text = '')'', more_groups = [('' - '', 4)]\<rparr>
      else
        \<lparr>lead_text = '''', first_group = 3, trail_text = '''', more_groups = [('' '', 3), ('' '', 4)]\<rparr>)"

definition format_spec :: "string \<Rightarrow> string \<Rightarrow> string" where
  "format_spec rawInput dialCode = render_template (template_for dialCode) (filter is_digit rawInput)"

text \<open>
  Auxiliary notions for reasoning about templates: the number of digits a template can
  show, and the side conditions every template of the program satisfies (its
  delimiters hold no digit, it has a further group, and no group is empty).
\<close>

definition capacity :: "template \<Rightarrow> nat" where
  "capacity t = first_group t + sum_list (map snd (more_groups t))"

definition no_digits :: "string \<Rightarrow> bool" where
  "no_digits s = (filter is_digit s = [])"

definition well_formed :: "template \<Rightarrow> bool" where
  "well_formed t =
     (no_digits (lead_text t) \<and> no_digits (trail_text t) \<and> more_groups t \<noteq> []
      \<and> list_all (\<lambda>(sep, n). no_digits sep \<and> 0 < n) (more_groups t))"

section \<open>Phone number input (PhoneNumberInput.tsx)\<close>

record Country =
  name :: string
  code :: string
  dialCode :: string
  flag :: string

text \<open>
  The two callbacks of the component are optional properties
  (\<^verbatim>\<open>onChange?.(...)\<close>, \<^verbatim>\<open>onCountryChange?.(...)\<close>): the properties record says
  whether each one is supplied, and every call made is appended to \<open>notified\<close>. The
  effect that copies the \<^verbatim>\<open>value\<close> property into the state runs when that property
  changes, not in the handlers.
\<close>

datatype notification = OnChange string | OnCountryChange Country

record PhoneNumberInputProps =
  onChange :: bool
  onCountryChange :: bool

record PhoneNumberInput =
  phoneNumber :: string
  selectedCountry :: Country
  notified :: "notification list"

definition handlePhoneChange ::
  "PhoneNumberInputProps \<Rightarrow> string \<Rightarrow> PhoneNumberInput \<Rightarrow> PhoneNumberInput" where
  "handlePhoneChange props target_value st =
     (let formatted = formatPhoneNumber target_value (dialCode (selectedCountry st))
      in st\<lparr>phoneNumber := formatted,
            notified := notified st @ (if onChange props then [OnChange formatted] else [])\<rparr>)"

definition handleCountryChange ::
  "PhoneNumberInputProps \<Rightarrow> Country \<Rightarrow> PhoneNumberInput \<Rightarrow> PhoneNumberInput" where
  "handleCountryChange props country st =
     st\<lparr>selectedCountry := country,
        phoneNumber := '''',
        notified := notified st
          @ (if onCountryChange props then [OnCountryChange country] else [])
          @ (if onChange props then [OnChange ''''] else [])\<rparr>"

section \<open>Form validation schema (lib/validations/registration.ts)\<close>

text \<open>
  The schema is a \<^verbatim>\<open>z.object\<close> of the zod library, run by the form library's
  \<^verbatim>\<open>zodResolver\<close>. The values of a form are JavaScript values; an object is a list of
  keys with their values, and a key that is missing reads as \<^verbatim>\<open>undefined\<close>.
\<close>

datatype jsvalue = Undefined | Str string | Bool bool

definition get_field :: "(string \<times> jsvalue) list \<Rightarrow> string \<Rightarrow> jsvalue" where
  "get_field obj k = (case map_of obj k of None \<Rightarrow> Undefined | Some v \<Rightarrow> v)"

text \<open>
  A message is the text written in the schema, or the library's own text for a value of
  the wrong type (for which the schema gives none).
\<close>

datatype message = Message string | InvalidType

datatype string_check = Min nat string | Email string

datatype zod_type =
    ZString "string_check list"
  | ZEnum "string list" string
  | ZBooleanRefine "bool \<Rightarrow> bool" string

definition registrationSchema :: "(string \<times> zod_type) list" where
  "registrationSchema =
     [(''firstName'', ZString [Min 1 ''First name is required'',
                               Min 2 ''First name must be at least 2 characters'']),
      (''lastName'', ZString [Min 1 ''Last name is required'',
                              Min 2 ''Last name must be at least 2 characters'']),
      (''gender'', ZEnum [''male'', ''female'', ''other''] ''Please select a gender''),
      (''country'', ZString [Min 1 ''Please select your residence country'']),
      (''email'', ZString [Min 1 ''Email is required'',
                           Email ''Please enter a valid email address'']),
      (''phone'', ZString [Min 1 ''Phone number is required'',
                           Min 10 ''Phone number must be at least 10 digits'']),
      (''acceptTerms'', ZBooleanRefine (\<lambda>val. val = True)
                          ''You must accept the terms and conditions to continue'')]"

text \<open>
  The library's evaluation of a schema. A string schema rejects a value that is not a
  string without running its checks; on a string it runs every check, in order, and
  each failing check adds an issue. The pattern behind \<^verbatim>\<open>.email()\<close> belongs to the
  library and is the parameter \<open>is_email\<close>. An enum schema with a message reports that
  message for every value outside the enum. A refinement runs only on a value of the
  refined type.
\<close>

fun run_check :: "(string \<Rightarrow> bool) \<Rightarrow> string \<Rightarrow> string_check \<Rightarrow> message list" where
  "run_check is_email s (Min n m) = (if length s < n then [Message m] else [])"
| "run_check is_email s (Email m) = (if is_email s then [] else [Message m])"

fun issues_of :: "(string \<Rightarrow> bool) \<Rightarrow> zod_type \<Rightarrow> jsvalue \<Rightarrow> message list" where
  "issues_of is_email (ZString checks) (Str s) = concat (map (run_check is_email s) checks)"
| "issues_of is_email (ZString checks) v = [InvalidType]"
| "issues_of is_email (ZEnum values m) (Str s) = (if s \<in> set values then [] else [Message m])"
| "issues_of is_email (ZEnum values m) v = [Message m]"
| "issues_of is_email (ZBooleanRefine refinement m) (Bool b) = (if refinement b then [] else [Message m])"
| "issues_of is_email (ZBooleanRefine refinement m) v = [InvalidType]"

text \<open>An object schema evaluates its keys in order; each issue carries its key as path.\<close>

definition safeParse ::
  "(string \<Rightarrow> bool) \<Rightarrow> (string \<times> zod_type) list \<Rightarrow> (string \<times> jsvalue) list \<Rightarrow> (string \<times> message) list" where
  "safeParse is_email schema obj =
     concat (map (\<lambda>(k, t). map (Pair k) (issues_of is_email t (get_field obj k))) schema)"

text \<open>
  The resolver turns the issues into the form's errors: going through the issues in
  order, an issue is recorded under its path unless the path already has an error.
\<close>

fun parseErrorSchema :: "(string \<times> message) list \<Rightarrow> (string \<rightharpoonup> message) \<Rightarrow> (string \<rightharpoonup> message)" where
  "parseErrorSchema [] errors = errors"
| "parseErrorSchema ((path, m) # rest) errors =
     parseErrorSchema rest (if errors path = None then errors(path \<mapsto> m) else errors)"

definition validate :: "(string \<Rightarrow> bool) \<Rightarrow> (string \<times> jsvalue) list \<Rightarrow> (string \<rightharpoonup> message)" where
  "validate is_email obj = parseErrorSchema (safeParse is_email registrationSchema obj) Map.empty"

text \<open>The first failing rule of a field, if any.\<close>

definition first_issue :: "message list \<Rightarrow> message option" where
  "first_issue ms = (case ms of [] \<Rightarrow> None | m # _ \<Rightarrow> Some m)"

text \<open>
  A form with all fields empty: each text or selection field is the empty string or was
  never set, and the checkbox is unticked or was never set.
\<close>

definition is_blank :: "jsvalue \<Rightarrow> bool" where
  "is_blank v = (v = Undefined \<or> v = Str '''')"

definition all_fields_empty :: "(string \<times> jsvalue) list \<Rightarrow> bool" where
  "all_fields_empty obj =
     (is_blank (get_field obj ''firstName'') \<and> is_blank (get_field obj ''lastName'')
      \<and> is_blank (get_field obj ''gender'') \<and> is_blank (get_field obj ''country'')
      \<and> is_blank (get_field obj ''email'') \<and> is_blank (get_field obj ''phone'')
      \<and> (get_field obj ''acceptTerms'' = Undefined \<or> get_field obj ''acceptTerms'' = Bool False))"

section \<open>The browser: storage and observable effects\<close>

text \<open>
  The hooks act on the browser's \<^verbatim>\<open>localStorage\<close> and on their surroundings (network,
  notifications, console, router). The storage is a map from keys to strings; every
  other action is recorded, in order, in \<open>effects\<close>, together with each storage access.
\<close>

datatype payload =
    EmailPayload string
  | PhonePayload string
  | MethodPayload string
  | RegisterPayload string string "string option"

datatype effect =
    GetItem string
  | SetItem string string
  | RemoveItem string
  | Fetch string payload
  | ToastSuccess string string
  | ToastError string
  | ConsoleLog string
  | ConsoleError string
  | RouterPush string

record browser =
  localStorage :: "string \<rightharpoonup> string"
  effects :: "effect list"

definition emit :: "effect \<Rightarrow> 'a browser_scheme \<Rightarrow> 'a browser_scheme" where
  "emit e b = b\<lparr>effects := effects b @ [e]\<rparr>"

definition getItem :: "string \<Rightarrow> 'a browser_scheme \<Rightarrow> string option \<times> 'a browser_scheme" where
  "getItem k b = (localStorage b k, emit (GetItem k) b)"

definition setItem :: "string \<Rightarrow> string \<Rightarrow> 'a browser_scheme \<Rightarrow> 'a browser_scheme" where
  "setItem k v b = emit (SetItem k v) (b\<lparr>localStorage := (localStorage b)(k \<mapsto> v)\<rparr>)"

definition removeItem :: "string \<Rightarrow> 'a browser_scheme \<Rightarrow> 'a browser_scheme" where
  "removeItem k b = emit (RemoveItem k) (b\<lparr>localStorage := (localStorage b)(k := None)\<rparr>)"

definition new_browser :: browser where
  "new_browser = \<lparr>localStorage = Map.empty, effects = []\<rparr>"

text \<open>The pages the router was asked to show, and the requests sent.\<close>

fun navigations :: "effect list \<Rightarrow> string list" where
  "navigations [] = []"
| "navigations (RouterPush p # es) = p # navigations es"
| "navigations (e # es) = navigations es"

fun requests :: "effect list \<Rightarrow> string list" where
  "requests [] = []"
| "requests (Fetch url body # es) = url # requests es"
| "requests (e # es) = requests es"

section \<open>API wrappers (lib/api/otp.ts)\<close>

text \<open>
  What the network answers to a request: the request is rejected, or there is a response
  with its \<^verbatim>\<open>ok\<close> flag, its status and the outcome of \<^verbatim>\<open>response.json()\<close>.
\<close>

record OTPResponse =
  msg :: "string option"
  success :: "bool option"

datatype json_body = Unparsable | Body OTPResponse

record response =
  ok :: bool
  status :: nat
  json :: json_body

datatype fetch_result = Rejected | Responded response

datatype api_error = NetworkError | HttpError nat | JsonError

text \<open>\<^verbatim>\<open>result.msg || fallback\<close>: the fallback replaces a message that is absent or empty.\<close>

definition or_fallback :: "string option \<Rightarrow> string \<Rightarrow> string" where
  "or_fallback m fallback = (case m of None \<Rightarrow> fallback | Some s \<Rightarrow> if s = '''' then fallback else s)"

definition sendOTPEmail ::
  "string \<Rightarrow> fetch_result \<Rightarrow> 'a browser_scheme \<Rightarrow> (api_error + string) \<times> 'a browser_scheme" where
  "sendOTPEmail email reply b =
     (let b1 = emit (Fetch ''https://demo4687464.mockable.io/send-otp-email'' (EmailPayload email)) b in
      case reply of
        Rejected \<Rightarrow> (Inl NetworkError, b1)
      | Responded r \<Rightarrow>
          if \<not> ok r then (Inl (HttpError (status r)), b1)
          else (case json r of
                  Unparsable \<Rightarrow> (Inl JsonError, b1)
                | Body result \<Rightarrow>
                    (Inr (or_fallback (msg result) ''OTP sent successfully to your email''),
                     emit (ConsoleLog ''Email OTP response:'') b1)))"

definition sendOTPPhone ::
  "string \<Rightarrow> fetch_result \<Rightarrow> 'a browser_scheme \<Rightarrow> (api_error + string) \<times> 'a browser_scheme" where
  "sendOTPPhone phone reply b =
     (let b1 = emit (Fetch ''http://demo4687464.mockable.io/send-otp-phone'' (PhonePayload phone)) b in
      case reply of
        Rejected \<Rightarrow> (Inl NetworkError, b1)
      | Responded r \<Rightarrow>
          if \<not> ok r then (Inl (HttpError (status r)), b1)
          else (case json r of
                  Unparsable \<Rightarrow> (Inl JsonError, b1)
                | Body result \<Rightarrow>
                    (Inr (or_fallback (msg result) ''OTP sent successfully to your phone''),
                     emit (ConsoleLog ''Phone OTP response:'') b1)))"

text \<open>
  \<^verbatim>\<open>verifyOTP(code, method, registrationData)\<close>: the third argument is the text of the stored
  registration data when it was read and parsed, and \<open>None\<close> for the empty object.
\<close>

definition verifyOTP ::
  "string \<Rightarrow> string \<Rightarrow> string option \<Rightarrow> fetch_result \<Rightarrow> 'a browser_scheme
   \<Rightarrow> (api_error + string) \<times> 'a browser_scheme" where
  "verifyOTP otp_code method registrationData reply b =
     (let b1 = emit (Fetch ''http://demo4687464.mockable.io/register''
                       (RegisterPayload otp_code method registrationData)) b in
      case reply of
        Rejected \<Rightarrow> (Inl NetworkError, b1)
      | Responded r \<Rightarrow>
          if \<not> ok r then (Inl (HttpError (status r)), b1)
          else (case json r of
                  Unparsable \<Rightarrow> (Inl JsonError, b1)
                | Body result \<Rightarrow>
                    (Inr (or_fallback (msg result) ''Registration completed successfully''),
                     emit (ConsoleLog ''Registration response:'') b1)))"

definition resendOTP ::
  "string \<Rightarrow> fetch_result \<Rightarrow> 'a browser_scheme \<Rightarrow> (api_error + string) \<times> 'a browser_scheme" where
  "resendOTP method reply b =
     (let b1 = emit (Fetch ''https://demo4687464.mockable.io/resend-otp'' (MethodPayload method)) b in
      case reply of
        Rejected \<Rightarrow> (Inl NetworkError, b1)
      | Responded r \<Rightarrow>
          if \<not> ok r then (Inl (HttpError (status r)), b1)
          else (case json r of
                  Unparsable \<Rightarrow> (Inl JsonError, b1)
                | Body result \<Rightarrow>
                    (Inr (or_fallback (msg result) (''OTP resent successfully to your '' @ method)),
                     emit (ConsoleLog ''Resend OTP response:'') b1)))"

text \<open>A request fails when any of the three exceptions of a wrapper is raised.\<close>

definition request_fails :: "fetch_result \<Rightarrow> bool" where
  "request_fails reply =
     (case reply of Rejected \<Rightarrow> True | Responded r \<Rightarrow> \<not> ok r \<or> json r = Unparsable)"

section \<open>Registration step (useRegistrationForm.ts)\<close>

record RegistrationFormData =
  firstName :: string
  lastName :: string
  gender :: string
  country :: string
  email :: string
  phone :: string
  acceptTerms :: bool

text \<open>
  \<^verbatim>\<open>JSON.stringify(data)\<close>: the object with its keys in the order of the schema, each string
  quoted the way JSON quotes it.
\<close>

definition hex_digit :: "nat \<Rightarrow> char" where
  "hex_digit n = ''0123456789abcdef'' ! n"

definition quote_char :: "char \<Rightarrow> string" where
  "quote_char c =
     (if c = CHR 0x22 then [CHR 0x5C, CHR 0x22]
      else if c = CHR 0x5C then [CHR 0x5C, CHR 0x5C]
      else if c = CHR 0x08 then [CHR 0x5C, CHR ''b'']
      else if c = CHR 0x0C then [CHR 0x5C, CHR ''f'']
      else if c = CHR 0x0A then [CHR 0x5C, CHR ''n'']
      else if c = CHR 0x0D then [CHR 0x5C, CHR ''r'']
      else if c = CHR 0x09 then [CHR 0x5C, CHR ''t'']
      else if (of_char c :: nat) < 32
        then [CHR 0x5C, CHR ''u'', CHR ''0'', CHR ''0'',
              hex_digit (of_char c div 16), hex_digit (of_char c mod 16)]
      else [c])"

definition quote :: "string \<Rightarrow> string" where
  "quote s = [CHR 0x22] @ concat (map quote_char s) @ [CHR 0x22]"

definition JSON_stringify :: "RegistrationFormData \<Rightarrow> string" where
  "JSON_stringify d =
     ''{'' @ quote ''firstName'' @ '':'' @ quote (firstName d)
     @ '','' @ quote ''lastName'' @ '':'' @ quote (lastName d)
     @ '','' @ quote ''gender'' @ '':'' @ quote (gender d)
     @ '','' @ quote ''country'' @ '':'' @ quote (country d)
     @ '','' @ quote ''email'' @ '':'' @ quote (email d)
     @ '','' @ quote ''phone'' @ '':'' @ quote (phone d)
     @ '','' @ quote ''acceptTerms'' @ '':'' @ (if acceptTerms d then ''true'' else ''false'')
     @ ''}''"

text \<open>
  \<^verbatim>\<open>onSubmit(data)\<close>. Writing to the storage and asking the router for a page can both
  throw; whether they do is not decided by the program, so it is given by the two
  flags. Either exception is caught and logged.
\<close>

definition onSubmit :: "bool \<Rightarrow> bool \<Rightarrow> RegistrationFormData \<Rightarrow> browser \<Rightarrow> browser" where
  "onSubmit setItem_throws push_throws d b =
     (if setItem_throws then emit (ConsoleError ''Registration error:'') b
      else
        let b1 = setItem ''wynn_registration_data'' (JSON_stringify d) b in
        if push_throws then emit (ConsoleError ''Registration error:'') b1
        else emit (RouterPush ''/otp-send'') b1)"

section \<open>OTP confirmation (useOTPConfirm.ts)\<close>

record OTPConfirm = browser +
  otp :: "string list"
  isResending :: bool
  isVerifying :: bool
  otpMethod :: string

text \<open>
  The state of the hook in a browser: the initial values of its four \<^verbatim>\<open>useState\<close> cells,
  then the effect run on mount, which reads the stored method and keeps it unless it is
  absent or empty.
\<close>

definition useOTPConfirm :: "browser \<Rightarrow> OTPConfirm" where
  "useOTPConfirm b =
     (let st = \<lparr>localStorage = localStorage b, effects = effects b,
                otp = ['''', '''', '''', ''''], isResending = False, isVerifying = False,
                otpMethod = ''email''\<rparr>;
          (method, st1) = getItem ''otp_method'' st
      in case method of
           None \<Rightarrow> st1
         | Some m \<Rightarrow> if m = '''' then st1 else st1\<lparr>otpMethod := m\<rparr>)"

definition handleOTPChange :: "string list \<Rightarrow> OTPConfirm \<Rightarrow> OTPConfirm" where
  "handleOTPChange newOtp st = st\<lparr>otp := newOtp\<rparr>"

text \<open>
  The two request actions are asynchronous. Each is given the network's answer to its
  request and returns the state reached once the request has settled and the action
  has run to its end, \<^verbatim>\<open>finally\<close> block included.
\<close>

definition handleResendCode :: "fetch_result \<Rightarrow> OTPConfirm \<Rightarrow> OTPConfirm" where
  "handleResendCode reply st =
     (let st1 = st\<lparr>isResending := True\<rparr>;
          (result, st2) = resendOTP (otpMethod st) reply st1;
          st3 = (case result of
                   Inr message \<Rightarrow>
                     (emit (ToastSuccess message (''New verification code sent to your '' @ otpMethod st)) st2)
                       \<lparr>otp := ['''', '''', '''', '''']\<rparr>
                 | Inl error \<Rightarrow>
                     emit (ToastError ''Failed to resend code. Please try again.'')
                       (emit (ConsoleError ''Failed to resend code:'') st2))
      in st3\<lparr>isResending := False\<rparr>)"

text \<open>
  \<^verbatim>\<open>handleSubmit(e)\<close>. The flag \<open>json_ok\<close> says whether \<^verbatim>\<open>JSON.parse\<close> accepts the stored
  text, when there is one. \<^verbatim>\<open>e.preventDefault()\<close> acts on the event alone and is left out.
\<close>

definition handleSubmit :: "bool \<Rightarrow> fetch_result \<Rightarrow> OTPConfirm \<Rightarrow> OTPConfirm" where
  "handleSubmit json_ok reply st =
     (let otp_code = concat (otp st) in
      if length otp_code \<noteq> 4 then st
      else
        let st1 = st\<lparr>isVerifying := True\<rparr>;
            (registrationDataStr, st2) = getItem ''wynn_registration_data'' st1;
            (registrationData, st3) =
              (case registrationDataStr of
                 None \<Rightarrow> (None, st2)
               | Some text \<Rightarrow>
                   if text = '''' then (None, st2)
                   else if json_ok then (Some text, st2)
                   else (None, emit (ConsoleError ''Failed to parse registration data:'') st2));
            (result, st4) = verifyOTP otp_code (otpMethod st) registrationData reply st3;
            st5 = (case result of
                     Inr message \<Rightarrow>
                       (removeItem ''wynn_registration_data''
                          (removeItem ''otp_method''
                             (emit (ToastSuccess message ''Welcome to Wynn Resorts!'')
                                (emit (ConsoleLog ''Registration completed successfully'') st4))))
                         \<lparr>otp := ['''', '''', '''', '''']\<rparr>
                   | Inl error \<Rightarrow>
                       (emit (ToastError ''Registration failed. Please try again.'')
                          (emit (ConsoleError ''Failed to complete registration:'') st4))
                         \<lparr>otp := ['''', '''', '''', '''']\<rparr>)
        in st5\<lparr>isVerifying := False\<rparr>)"

text \<open>\<^verbatim>\<open>isCodeComplete\<close> of the hook: \<^verbatim>\<open>otp.every(digit => digit !== "")\<close>.\<close>

definition isCodeComplete :: "string list \<Rightarrow> bool" where
  "isCodeComplete cells = list_all (\<lambda>digit. digit \<noteq> '''') cells"

text \<open>
  The completeness predicate in the specification's words: every cell is a non-empty
  single character. A buffer of the widget has four cells of at most one character.
\<close>

definition complete_spec :: "string list \<Rightarrow> bool" where
  "complete_spec cells = list_all (\<lambda>cell. length cell = 1) cells"

definition otp_buffer :: "string list \<Rightarrow> bool" where
  "otp_buffer cells = (length cells = 4 \<and> list_all (\<lambda>cell. length cell \<le> 1) cells)"

section \<open>Properties of the OTP digit input\<close>

text \<open>
  What \<^const>\<open>handlePaste\<close> computes: the clipboard text is cut to four characters first,
  and each of these goes to the cell at its own position, which stays empty when the
  character is not a digit. Focus follows the length of the cut text.
\<close>

lemma handlePaste_cells:
  "handlePaste s =
     (map (\<lambda>c. if is_digit c then [c] else '''') (take 4 s) @ replicate (4 - length s) '''',
      min (length s) 3)"
proof -
  consider "s = []" | a where "s = [a]" | a b where "s = [a, b]" | a b c where "s = [a, b, c]"
    | a b c d r where "s = a # b # c # d # r"
    by (metis list.exhaust)
  then show ?thesis
    by cases (simp_all add: handlePaste_def slice_def paste_loop.simps array_set_def numeral_eq_Suc)
qed

lemma list_all_update: "list_all P xs \<Longrightarrow> P v \<Longrightarrow> list_all P (xs[i := v])"
  by (induction xs arbitrary: i) (auto split: nat.splits)

text \<open>Typing and pasting keep the buffer at four cells of at most one character.\<close>

lemma handleInputChange_buffer:
  "otp_buffer cells \<Longrightarrow> index < 4 \<Longrightarrow> handleInputChange cells index v = Some (cells', focus)
   \<Longrightarrow> otp_buffer cells'"
  by (auto simp: handleInputChange_def array_set_def otp_buffer_def list_all_update split: if_splits)

lemma handlePaste_buffer: "otp_buffer (fst (handlePaste s))"
  by (simp add: handlePaste_cells otp_buffer_def list_all_iff) (auto simp: in_set_replicate)

text \<open>
  C1. Pasting into cell 0 is claimed to keep only the digits of the clipboard text, cut
  them to four and fill the cells from the left, so that \<open>1a2b3c4d\<close> gives the cells
  \<open>1, 2, 3, 4\<close>. The program cuts the text to \<open>1a2b\<close> before it looks for digits and
  leaves a gap at each position that holds no digit: it hands over \<open>1, empty, 2, empty\<close>,
  where the behaviour claimed gives \<open>1, 2, 3, 4\<close>.
\<close>

theorem handlePaste_mixed_clipboard:
  "handlePaste ''1a2b3c4d'' = ([''1'', '''', ''2'', ''''], 3)
   \<and> paste_spec ''1a2b3c4d'' = ([''1'', ''2'', ''3'', ''4''], 3)"
  by (simp add: handlePaste_def paste_spec_def slice_def paste_loop.simps array_set_def is_digit_def)

section \<open>Properties of the phone formatter\<close>

lemma formatPhoneNumber_render:
  "formatPhoneNumber v d = render_template (template_for d) (filter is_digit v)"
  by (auto simp: formatPhoneNumber_def render_template_def template_for_def
      strip_non_digits_def slice_def slice_from_def Let_def)

text \<open>
  C2. For every input string and dial code the formatter strips the characters that are
  not digits and then applies the progressive grouping template of the dial code
  (\<open>+1\<close>: groups of 3, 3, 4 as \<open>(DDD) DDD-DDDD\<close>; \<open>+44\<close>: groups of 4, 3, 4; \<open>+971\<close>:
  groups of 3, 4 as \<open>(DDD) - DDDD\<close>; any other dial code: groups of 3, 3, 4 as
  \<open>DDD DDD DDDD\<close>). In particular \<open>1234567890\<close> under \<open>+1\<close> is \<open>(123) 456-7890\<close> and
  \<open>1234567\<close> under \<open>+971\<close> is \<open>(123) - 4567\<close>.
\<close>

theorem formatPhoneNumber_templates:
  "formatPhoneNumber rawInput d = format_spec rawInput d
   \<and> formatPhoneNumber ''1234567890'' ''+1'' = ''(123) 456-7890''
   \<and> formatPhoneNumber ''1234567'' ''+971'' = ''(123) - 4567''"
proof -
  have "formatPhoneNumber rawInput d = format_spec rawInput d"
    by (simp add: formatPhoneNumber_render format_spec_def)
  moreover have "formatPhoneNumber ''1234567890'' ''+1'' = ''(123) 456-7890''"
    by (simp add: formatPhoneNumber_def strip_non_digits_def slice_def is_digit_def)
  moreover have "formatPhoneNumber ''1234567'' ''+971'' = ''(123) - 4567''"
    by (simp add: formatPhoneNumber_def strip_non_digits_def slice_from_def slice_def is_digit_def)
  ultimately show ?thesis by simp
qed

text \<open>The templates of the program are well formed.\<close>

lemma well_formed_template_for: "well_formed (template_for d)"
  by (simp add: well_formed_def template_for_def no_digits_def is_digit_def)

text \<open>
  The digits of a rendered group list are the digits that went in, up to the sizes of
  the groups; digits beyond these sizes do not change the rendering.
\<close>

lemma digits_render_groups:
  "list_all (\<lambda>(sep, n). no_digits sep \<and> 0 < n) gs \<Longrightarrow> filter is_digit ds = ds
   \<Longrightarrow> filter is_digit (render_groups gs ds) = take (sum_list (map snd gs)) ds"
proof (induction gs arbitrary: ds)
  case Nil
  then show ?case by simp
next
  case (Cons g gs)
  obtain sep n where g: "g = (sep, n)" by (cases g)
  from Cons.prems g have sep: "filter is_digit sep = []"
    and rest: "list_all (\<lambda>(sep, n). no_digits sep \<and> 0 < n) gs"
    by (simp_all add: no_digits_def)
  have all: "\<forall>c \<in> set ds. is_digit c"
    using Cons.prems(2) by (metis filter_id_conv)
  have tk: "filter is_digit (take n ds) = take n ds"
    by (rule filter_True) (use all in \<open>auto dest: in_set_takeD\<close>)
  have dr: "filter is_digit (drop n ds) = drop n ds"
    by (rule filter_True) (use all in \<open>auto dest: in_set_dropD\<close>)
  show ?case
    using Cons.IH[OF rest dr] by (simp add: g sep tk take_add)
qed

lemma render_groups_take:
  "list_all (\<lambda>(sep, n). no_digits sep \<and> 0 < n) gs
   \<Longrightarrow> render_groups gs (take (sum_list (map snd gs)) ds) = render_groups gs ds"
proof (induction gs arbitrary: ds)
  case Nil
  then show ?case by simp
next
  case (Cons g gs)
  obtain sep n where g: "g = (sep, n)" by (cases g)
  from Cons.prems g have n: "0 < n"
    and rest: "list_all (\<lambda>(sep, n). no_digits sep \<and> 0 < n) gs"
    by simp_all
  show ?case
    using Cons.IH[OF rest, of "drop n ds"] n by (simp add: g drop_take min_def)
qed

lemma digits_render_template:
  assumes "well_formed t" and "filter is_digit ds = ds"
  shows "filter is_digit (render_template t ds) = take (capacity t) ds"
proof (cases "length ds \<le> first_group t")
  case True
  then show ?thesis using assms(2) by (simp add: render_template_def capacity_def)
next
  case False
  have all: "\<forall>c \<in> set ds. is_digit c"
    using assms(2) by (metis filter_id_conv)
  have tk: "filter is_digit (take (first_group t) ds) = take (first_group t) ds"
    by (rule filter_True) (use all in \<open>auto dest: in_set_takeD\<close>)
  have dr: "filter is_digit (drop (first_group t) ds) = drop (first_group t) ds"
    by (rule filter_True) (use all in \<open>auto dest: in_set_dropD\<close>)
  from assms(1) have gs: "list_all (\<lambda>(sep, n). no_digits sep \<and> 0 < n) (more_groups t)"
    and lt: "filter is_digit (lead_text t) = []" "filter is_digit (trail_text t) = []"
    by (simp_all add: well_formed_def no_digits_def)
  show ?thesis
    using False digits_render_groups[OF gs dr]
    by (simp add: render_template_def capacity_def lt tk take_add)
qed

lemma sum_sizes_pos:
  fixes gs :: "(string \<times> nat) list"
  shows "gs \<noteq> [] \<Longrightarrow> list_all (\<lambda>(sep, n). no_digits sep \<and> 0 < n) gs \<Longrightarrow> 0 < sum_list (map snd gs)"
  by (cases gs) auto

lemma render_template_take:
  assumes "well_formed t"
  shows "render_template t (take (capacity t) ds) = render_template t ds"
proof (cases "length ds \<le> first_group t")
  case True
  then show ?thesis by (simp add: capacity_def)
next
  case False
  from assms have gs: "list_all (\<lambda>(sep, n). no_digits sep \<and> 0 < n) (more_groups t)"
    and ne: "more_groups t \<noteq> []"
    by (simp_all add: well_formed_def)
  have pos: "0 < sum_list (map snd (more_groups t))"
    by (rule sum_sizes_pos[OF ne gs])
  have long: "\<not> length (take (capacity t) ds) \<le> first_group t"
    using False pos by (simp add: capacity_def)
  show ?thesis
    using False long render_groups_take[OF gs, of "drop (first_group t) ds"]
    by (simp add: render_template_def capacity_def drop_take min_def)
qed

text \<open>
  C9. The formatter is idempotent: for every input string \<open>s\<close> and every dial code \<open>d\<close>,
  formatting the formatted string again under the same dial code changes nothing.
\<close>

theorem formatPhoneNumber_idempotent:
  "formatPhoneNumber (formatPhoneNumber s d) d = formatPhoneNumber s d"
proof -
  let ?t = "template_for d" and ?ds = "filter is_digit s"
  have wf: "well_formed ?t" by (rule well_formed_template_for)
  have "filter is_digit (formatPhoneNumber s d) = take (capacity ?t) ?ds"
    by (simp add: formatPhoneNumber_render digits_render_template[OF wf])
  then have "formatPhoneNumber (formatPhoneNumber s d) d = render_template ?t (take (capacity ?t) ?ds)"
    by (simp add: formatPhoneNumber_render[of "formatPhoneNumber s d"])
  also have "\<dots> = render_template ?t ?ds" by (rule render_template_take[OF wf])
  finally show ?thesis by (simp add: formatPhoneNumber_render[of s])
qed

section \<open>Properties of the phone number input\<close>

text \<open>
  C7. For every prior phone value and every newly selected country, changing the country
  resets the phone value to the empty string: the component calls \<open>onCountryChange\<close> with
  the new country, clears its digit buffer and calls \<open>onChange\<close> with the empty string
  (each callback when it is supplied). The old digits are not formatted again: the next
  keystroke is formatted from its own input under the new country's dial code.
\<close>

theorem handleCountryChange_resets:
  "phoneNumber (handleCountryChange props c st) = ''''
   \<and> selectedCountry (handleCountryChange props c st) = c
   \<and> notified (handleCountryChange props c st)
       = notified st @ (if onCountryChange props then [OnCountryChange c] else [])
                     @ (if onChange props then [OnChange ''''] else [])
   \<and> phoneNumber (handlePhoneChange props input (handleCountryChange props c st))
       = formatPhoneNumber input (dialCode c)"
  by (simp add: handleCountryChange_def handlePhoneChange_def Let_def)

section \<open>Properties of the API wrappers\<close>

text \<open>A wrapper raises an exception exactly when the request fails.\<close>

lemma wrapper_fails:
  "isl (fst (sendOTPEmail e reply b)) = request_fails reply"
  "isl (fst (sendOTPPhone p reply b)) = request_fails reply"
  "isl (fst (verifyOTP c m d reply b)) = request_fails reply"
  "isl (fst (resendOTP m reply b)) = request_fails reply"
  by (simp_all add: sendOTPEmail_def sendOTPPhone_def verifyOTP_def resendOTP_def
      request_fails_def Let_def split: fetch_result.splits json_body.splits)

text \<open>
  C10. Every API wrapper (send email code, send phone code, verify/register, resend)
  returns its hard-coded fallback message when the response is successful and its
  \<open>msg\<close> is absent or the empty string; a wrapper never returns the empty string.
\<close>

theorem wrappers_fallback_on_falsy_msg:
  assumes "ok r" and "json r = Body result" and "msg result = None \<or> msg result = Some ''''"
  shows "fst (sendOTPEmail e (Responded r) b) = Inr ''OTP sent successfully to your email''
     \<and> fst (sendOTPPhone p (Responded r) b) = Inr ''OTP sent successfully to your phone''
     \<and> fst (verifyOTP otp_code method registrationData (Responded r) b)
         = Inr ''Registration completed successfully''
     \<and> fst (resendOTP method (Responded r) b) = Inr (''OTP resent successfully to your '' @ method)
     \<and> fst (sendOTPEmail e reply b) \<noteq> Inr ''''
     \<and> fst (sendOTPPhone p reply b) \<noteq> Inr ''''
     \<and> fst (verifyOTP otp_code method registrationData reply b) \<noteq> Inr ''''
     \<and> fst (resendOTP method reply b) \<noteq> Inr ''''"
proof -
  have fb: "\<And>fallback. or_fallback (msg result) fallback = fallback"
    using assms(3) by (auto simp: or_fallback_def)
  have ne: "\<And>m fallback. fallback \<noteq> '''' \<Longrightarrow> or_fallback m fallback \<noteq> ''''"
    by (simp add: or_fallback_def split: option.splits)
  have "fst (sendOTPEmail e (Responded r) b) = Inr ''OTP sent successfully to your email''"
    using assms(1,2) by (simp add: sendOTPEmail_def Let_def fb)
  moreover have "fst (sendOTPPhone p (Responded r) b) = Inr ''OTP sent successfully to your phone''"
    using assms(1,2) by (simp add: sendOTPPhone_def Let_def fb)
  moreover have "fst (verifyOTP otp_code method registrationData (Responded r) b)
      = Inr ''Registration completed successfully''"
    using assms(1,2) by (simp add: verifyOTP_def Let_def fb)
  moreover have "fst (resendOTP method (Responded r) b)
      = Inr (''OTP resent successfully to your '' @ method)"
    using assms(1,2) by (simp add: resendOTP_def Let_def fb)
  moreover have "fst (sendOTPEmail e reply b) \<noteq> Inr ''''"
    by (simp add: sendOTPEmail_def Let_def ne split: fetch_result.splits json_body.splits)
  moreover have "fst (sendOTPPhone p reply b) \<noteq> Inr ''''"
    by (simp add: sendOTPPhone_def Let_def ne split: fetch_result.splits json_body.splits)
  moreover have "fst (verifyOTP otp_code method registrationData reply b) \<noteq> Inr ''''"
    by (simp add: verifyOTP_def Let_def ne split: fetch_result.splits json_body.splits)
  moreover have "fst (resendOTP method reply b) \<noteq> Inr ''''"
    by (simp add: resendOTP_def Let_def ne split: fetch_result.splits json_body.splits)
  ultimately show ?thesis by simp
qed

theorem wrappers_fallback_on_falsy_msg_witness:
  "ok \<lparr>ok = True, status = 200, json = Body \<lparr>msg = Some '''', success = Some True\<rparr>\<rparr>
   \<and> fst (sendOTPEmail ''a@b.co''
        (Responded \<lparr>ok = True, status = 200, json = Body \<lparr>msg = Some '''', success = Some True\<rparr>\<rparr>)
        new_browser) = Inr ''OTP sent successfully to your email''
   \<and> fst (resendOTP ''phone''
        (Responded \<lparr>ok = True, status = 200, json = Body \<lparr>msg = Some '''', success = Some True\<rparr>\<rparr>)
        new_browser) = Inr ''OTP resent successfully to your phone''"
  using wrappers_fallback_on_falsy_msg
    [of "\<lparr>ok = True, status = 200, json = Body \<lparr>msg = Some '''', success = Some True\<rparr>\<rparr>"
        "\<lparr>msg = Some '''', success = Some True\<rparr>" "''a@b.co''" new_browser _ _ "''phone''"]
  by simp

section \<open>Properties of the registration step\<close>

lemma navigations_append: "navigations (xs @ ys) = navigations xs @ navigations ys"
  by (induction xs rule: navigations.induct) simp_all

text \<open>
  C3. On a submit attempt that passes validation the record is claimed to be stored
  under the key \<open>registration_data\<close>. The program stores it under
  \<open>wynn_registration_data\<close>: after a successful submit in a browser that stored nothing,
  the key \<open>registration_data\<close> is still absent, although the navigation has happened.
\<close>

theorem onSubmit_key_counterexample:
  "localStorage (onSubmit False False
      \<lparr>firstName = ''John'', lastName = ''Doe'', gender = ''male'', country = ''us'',
       email = ''john.doe@example.com'', phone = ''1234567890'', acceptTerms = True\<rparr> new_browser)
     ''registration_data'' = None
   \<and> navigations (effects (onSubmit False False
      \<lparr>firstName = ''John'', lastName = ''Doe'', gender = ''male'', country = ''us'',
       email = ''john.doe@example.com'', phone = ''1234567890'', acceptTerms = True\<rparr> new_browser))
     = [''/otp-send'']"
  by (simp add: onSubmit_def setItem_def emit_def new_browser_def Let_def)

text \<open>
  C3, amended. \<^const>\<open>onSubmit\<close> serializes the record to the storage under the key
  \<open>wynn_registration_data\<close> and then navigates to the OTP method selection step
  (\<open>/otp-send\<close>); if the write throws, the storage is unchanged and no navigation occurs.
\<close>

theorem onSubmit_persists_then_navigates:
  "localStorage (onSubmit False push_throws d b) ''wynn_registration_data'' = Some (JSON_stringify d)
   \<and> effects (onSubmit False False d b)
       = effects b @ [SetItem ''wynn_registration_data'' (JSON_stringify d), RouterPush ''/otp-send'']
   \<and> navigations (effects (onSubmit False False d b)) = navigations (effects b) @ [''/otp-send'']
   \<and> localStorage (onSubmit True push_throws d b) = localStorage b
   \<and> navigations (effects (onSubmit True push_throws d b)) = navigations (effects b)"
  by (simp add: onSubmit_def setItem_def emit_def Let_def navigations_append)

section \<open>Properties of the OTP confirmation\<close>

text \<open>
  C4. The two request actions treat the digit buffer differently on failure: for every
  buffer, partial or not, a failing resend request leaves it unchanged, while a failing
  verify request (which is only sent for a code of length four) clears it.
\<close>

theorem failure_asymmetry:
  assumes "request_fails reply"
  shows "otp (handleResendCode reply st) = otp st
     \<and> (length (concat (otp st')) = 4 \<longrightarrow>
          otp (handleSubmit json_ok reply st') = ['''', '''', '''', ''''])"
proof -
  have "otp (handleResendCode reply st) = otp st"
    using assms
    by (auto simp add: handleResendCode_def resendOTP_def request_fails_def Let_def emit_def
        split: fetch_result.splits json_body.splits)
  moreover have "otp (handleSubmit json_ok reply st') = ['''', '''', '''', '''']"
    if "length (concat (otp st')) = 4"
    using assms that
    by (auto simp add: handleSubmit_def verifyOTP_def request_fails_def Let_def emit_def getItem_def
        split: fetch_result.splits json_body.splits option.splits prod.splits)
  ultimately show ?thesis by simp
qed

theorem failure_asymmetry_witness:
  "request_fails Rejected
   \<and> otp (handleResendCode Rejected (handleOTPChange [''1'', ''2'', '''', ''''] (useOTPConfirm new_browser)))
       = [''1'', ''2'', '''', '''']
   \<and> length (concat (otp (handleOTPChange [''1'', ''2'', ''3'', ''4''] (useOTPConfirm new_browser)))) = 4
   \<and> otp (handleSubmit True Rejected (handleOTPChange [''1'', ''2'', ''3'', ''4''] (useOTPConfirm new_browser)))
       = ['''', '''', '''', '''']"
  using failure_asymmetry
    [of Rejected "handleOTPChange [''1'', ''2'', '''', ''''] (useOTPConfirm new_browser)"
        "handleOTPChange [''1'', ''2'', ''3'', ''4''] (useOTPConfirm new_browser)" True]
  by (simp add: request_fails_def handleOTPChange_def)

text \<open>
  C5. When the verify request of a submit succeeds, both persisted keys are claimed to
  be deleted, the second one being \<open>registration_data\<close>. The program deletes
  \<open>otp_method\<close> and \<open>wynn_registration_data\<close>: a value stored under \<open>registration_data\<close>
  is still there after a successful submit.
\<close>

theorem handleSubmit_success_key_counterexample:
  "localStorage
     (handleSubmit True
        (Responded \<lparr>ok = True, status = 200, json = Body \<lparr>msg = Some ''Registered'', success = Some True\<rparr>\<rparr>)
        \<lparr>localStorage = map_of [(''registration_data'', ''{}''), (''otp_method'', ''email'')],
         effects = [], otp = [''1'', ''2'', ''3'', ''4''], isResending = False, isVerifying = False,
         otpMethod = ''email''\<rparr>)
     ''registration_data'' = Some ''{}''"
  by (simp add: handleSubmit_def verifyOTP_def Let_def emit_def getItem_def removeItem_def)

text \<open>
  C5, amended. When the verify request of a submit succeeds, the keys \<open>otp_method\<close> and
  \<open>wynn_registration_data\<close> are deleted from the storage (and nothing else in it
  changes), the digit buffer is cleared, and no page navigation is performed.
\<close>

theorem handleSubmit_success:
  assumes "length (concat (otp st)) = 4" and "\<not> request_fails reply"
  shows "localStorage (handleSubmit json_ok reply st)
       = (localStorage st)(''otp_method'' := None, ''wynn_registration_data'' := None)
     \<and> otp (handleSubmit json_ok reply st) = ['''', '''', '''', '''']
     \<and> navigations (effects (handleSubmit json_ok reply st)) = navigations (effects st)"
  using assms
  by (auto simp add: handleSubmit_def verifyOTP_def request_fails_def Let_def emit_def getItem_def
      removeItem_def navigations_append
      split: fetch_result.splits json_body.splits option.splits prod.splits)

theorem handleSubmit_success_witness:
  "length (concat (otp (handleOTPChange [''1'', ''2'', ''3'', ''4''] (useOTPConfirm new_browser)))) = 4
   \<and> \<not> request_fails (Responded \<lparr>ok = True, status = 200, json = Body \<lparr>msg = None, success = None\<rparr>\<rparr>)
   \<and> localStorage (handleSubmit True
         (Responded \<lparr>ok = True, status = 200, json = Body \<lparr>msg = None, success = None\<rparr>\<rparr>)
         (handleOTPChange [''1'', ''2'', ''3'', ''4''] (useOTPConfirm new_browser))) ''otp_method'' = None
   \<and> otp (handleSubmit True
         (Responded \<lparr>ok = True, status = 200, json = Body \<lparr>msg = None, success = None\<rparr>\<rparr>)
         (handleOTPChange [''1'', ''2'', ''3'', ''4''] (useOTPConfirm new_browser))) = ['''', '''', '''', '''']"
  using handleSubmit_success
    [of "handleOTPChange [''1'', ''2'', ''3'', ''4''] (useOTPConfirm new_browser)"
        "Responded \<lparr>ok = True, status = 200, json = Body \<lparr>msg = None, success = None\<rparr>\<rparr>" True]
  by (simp add: request_fails_def handleOTPChange_def)

lemma submit_effects_grow:
  "length (concat (otp st)) = 4 \<Longrightarrow> length (effects st) < length (effects (handleSubmit json_ok reply st))"
  by (auto simp add: handleSubmit_def verifyOTP_def Let_def emit_def getItem_def removeItem_def
      split: fetch_result.splits json_body.splits option.splits prod.splits sum.splits)

lemma four_cells: "length xs = 4 \<Longrightarrow> \<exists>a b c d. xs = [a, b, c, d]"
  by (auto simp: numeral_eq_Suc length_Suc_conv)

text \<open>
  On a buffer of the widget the guard of \<^const>\<open>handleSubmit\<close> (the joined string has
  length four) is the completeness predicate.
\<close>

lemma buffer_guard:
  assumes "otp_buffer cells"
  shows "(length (concat cells) = 4) = complete_spec cells"
proof -
  from assms obtain a b c d where cells: "cells = [a, b, c, d]"
    unfolding otp_buffer_def using four_cells by blast
  with assms have "length a \<le> 1" "length b \<le> 1" "length c \<le> 1" "length d \<le> 1"
    by (simp_all add: otp_buffer_def)
  then show ?thesis
    unfolding cells complete_spec_def by simp linarith
qed

text \<open>Outside such buffers the two differ: these cells join to four characters.\<close>

lemma guard_passes_incomplete:
  "length (concat [''12'', ''34'', '''', '''']) = 4 \<and> \<not> complete_spec [''12'', ''34'', '''', '''']"
  by (simp add: complete_spec_def)

text \<open>
  C8. The submit action is a no-op (no network call, no state change, no storage
  access: the state, which records all of these, is returned as it was) exactly when the
  code is not complete, that is, unless every cell is a non-empty single character. This
  is for the buffers of the widget, whose four cells hold at most one character each.
\<close>

theorem handleSubmit_noop_iff_incomplete:
  assumes "otp_buffer (otp st)"
  shows "(handleSubmit json_ok reply st = st) = (\<not> complete_spec (otp st))"
proof (cases "length (concat (otp st)) = 4")
  case True
  from submit_effects_grow[OF True] have "handleSubmit json_ok reply st \<noteq> st"
    by (metis less_irrefl)
  with True buffer_guard[OF assms] show ?thesis by simp
next
  case False
  then have "handleSubmit json_ok reply st = st" by (simp add: handleSubmit_def)
  with False buffer_guard[OF assms] show ?thesis by simp
qed

theorem handleSubmit_noop_iff_incomplete_witness:
  "otp_buffer (otp (handleOTPChange [''1'', ''2'', '''', ''4''] (useOTPConfirm new_browser)))
   \<and> handleSubmit True Rejected (handleOTPChange [''1'', ''2'', '''', ''4''] (useOTPConfirm new_browser))
       = handleOTPChange [''1'', ''2'', '''', ''4''] (useOTPConfirm new_browser)
   \<and> otp_buffer (otp (handleOTPChange [''1'', ''2'', ''3'', ''4''] (useOTPConfirm new_browser)))
   \<and> handleSubmit True Rejected (handleOTPChange [''1'', ''2'', ''3'', ''4''] (useOTPConfirm new_browser))
       \<noteq> handleOTPChange [''1'', ''2'', ''3'', ''4''] (useOTPConfirm new_browser)"
  using handleSubmit_noop_iff_incomplete
    [of "handleOTPChange [''1'', ''2'', '''', ''4''] (useOTPConfirm new_browser)" True Rejected]
    handleSubmit_noop_iff_incomplete
    [of "handleOTPChange [''1'', ''2'', ''3'', ''4''] (useOTPConfirm new_browser)" True Rejected]
  by (simp add: otp_buffer_def complete_spec_def handleOTPChange_def)

section \<open>Properties of the validation schema\<close>

text \<open>The resolver reports, for each path, the first issue with that path.\<close>

lemma parseErrorSchema_lookup:
  "parseErrorSchema issues errors k = (case errors k of Some m \<Rightarrow> Some m | None \<Rightarrow> map_of issues k)"
  by (induction issues errors rule: parseErrorSchema.induct) (auto split: option.splits)

lemma map_of_Pair: "map_of (map (Pair k) ms) k' = (if k' = k then first_issue ms else None)"
  by (cases ms) (auto simp: first_issue_def map_of_eq_None_iff image_iff)

lemma validate_lookup:
  "validate is_email obj k = map_of (safeParse is_email registrationSchema obj) k"
  by (simp add: validate_def parseErrorSchema_lookup)

lemma map_of_safeParse_other:
  "k \<notin> fst ` set schema \<Longrightarrow> map_of (safeParse is_email schema obj) k = None"
  by (auto simp add: safeParse_def map_of_eq_None_iff image_iff)

lemma map_of_safeParse:
  "distinct (map fst schema) \<Longrightarrow> (k, t) \<in> set schema \<Longrightarrow>
   map_of (safeParse is_email schema obj) k = first_issue (issues_of is_email t (get_field obj k))"
proof (induction schema)
  case Nil
  then show ?case by simp
next
  case (Cons a schema)
  obtain k' t' where a: "a = (k', t')" by (cases a)
  have split: "map_of (safeParse is_email (a # schema) obj) k
      = (case (if k = k' then first_issue (issues_of is_email t' (get_field obj k')) else None) of
           Some m \<Rightarrow> Some m
         | None \<Rightarrow> map_of (safeParse is_email schema obj) k)"
    by (simp add: a safeParse_def map_add_def map_of_Pair split: option.splits)
  show ?case
  proof (cases "k' = k")
    case True
    with Cons.prems a have "t' = t" by (auto simp: image_iff)
    have "k \<notin> fst ` set schema" using Cons.prems(1) a True by simp
    then have "map_of (safeParse is_email schema obj) k = None"
      by (rule map_of_safeParse_other)
    then show ?thesis using True \<open>t' = t\<close> by (simp add: split split: option.splits)
  next
    case False
    with Cons.prems a have "(k, t) \<in> set schema" "distinct (map fst schema)" by auto
    from Cons.IH[OF this(2,1)] show ?thesis using False
      by (simp add: split split: option.splits)
  qed
qed

lemma schema_keys: "map fst registrationSchema =
  [''firstName'', ''lastName'', ''gender'', ''country'', ''email'', ''phone'', ''acceptTerms'']"
  by (simp add: registrationSchema_def)

lemma schema_key_set:
  "fst ` set registrationSchema =
     {''firstName'', ''lastName'', ''gender'', ''country'', ''email'', ''phone'', ''acceptTerms''}"
proof -
  have "fst ` set registrationSchema = set (map fst registrationSchema)" by simp
  then show ?thesis unfolding schema_keys by simp
qed

lemma validate_field:
  "(k, t) \<in> set registrationSchema \<Longrightarrow>
   validate is_email obj k = first_issue (issues_of is_email t (get_field obj k))"
  by (simp add: validate_lookup map_of_safeParse schema_keys)

lemma validate_other:
  "k \<notin> fst ` set registrationSchema \<Longrightarrow> validate is_email obj k = None"
  by (simp add: validate_lookup map_of_safeParse_other)

lemma blank_string_issue:
  "is_blank v \<Longrightarrow> first_issue (issues_of is_email (ZString (Min 1 m # checks)) v) \<noteq> None"
  by (auto simp: is_blank_def first_issue_def)

lemma blank_enum_issue:
  "is_blank v \<Longrightarrow> '''' \<notin> set vs \<Longrightarrow> first_issue (issues_of is_email (ZEnum vs m) v) \<noteq> None"
  by (auto simp: is_blank_def first_issue_def)

lemma unticked_issue:
  "v = Undefined \<or> v = Bool False \<Longrightarrow>
   first_issue (issues_of is_email (ZBooleanRefine (\<lambda>val. val = True) m) v) \<noteq> None"
  by (auto simp: first_issue_def)

lemma empty_form_errors:
  assumes "all_fields_empty obj"
  shows "validate is_email obj ''firstName'' \<noteq> None"
    and "validate is_email obj ''lastName'' \<noteq> None"
    and "validate is_email obj ''gender'' \<noteq> None"
    and "validate is_email obj ''country'' \<noteq> None"
    and "validate is_email obj ''email'' \<noteq> None"
    and "validate is_email obj ''phone'' \<noteq> None"
    and "validate is_email obj ''acceptTerms'' \<noteq> None"
proof -
  note blank = assms[unfolded all_fields_empty_def]
  have m: "\<And>k t. (k, t) \<in> set registrationSchema \<Longrightarrow>
     first_issue (issues_of is_email t (get_field obj k)) \<noteq> None \<Longrightarrow> validate is_email obj k \<noteq> None"
    by (simp add: validate_field)
  show "validate is_email obj ''firstName'' \<noteq> None"
    by (rule m[OF _ blank_string_issue]) (simp_all add: registrationSchema_def blank)
  show "validate is_email obj ''lastName'' \<noteq> None"
    by (rule m[OF _ blank_string_issue]) (simp_all add: registrationSchema_def blank)
  have "(''gender'', ZEnum [''male'', ''female'', ''other''] ''Please select a gender'')
          \<in> set registrationSchema"
    by (simp add: registrationSchema_def)
  from m[OF this blank_enum_issue] blank
  show "validate is_email obj ''gender'' \<noteq> None" by simp
  show "validate is_email obj ''country'' \<noteq> None"
    by (rule m[OF _ blank_string_issue]) (simp_all add: registrationSchema_def blank)
  show "validate is_email obj ''email'' \<noteq> None"
    by (rule m[OF _ blank_string_issue]) (simp_all add: registrationSchema_def blank)
  show "validate is_email obj ''phone'' \<noteq> None"
    by (rule m[OF _ blank_string_issue]) (simp_all add: registrationSchema_def blank)
  show "validate is_email obj ''acceptTerms'' \<noteq> None"
    by (rule m[OF _ unticked_issue]) (simp_all add: registrationSchema_def blank)
qed

lemma empty_form_error_keys:
  assumes "all_fields_empty obj"
  shows "dom (validate is_email obj)
    = {''firstName'', ''lastName'', ''gender'', ''country'', ''email'', ''phone'', ''acceptTerms''}"
    (is "?D = ?K")
proof
  show "?D \<subseteq> ?K"
  proof
    fix k assume "k \<in> ?D"
    then have "validate is_email obj k \<noteq> None" by (simp add: dom_def)
    then have "k \<in> fst ` set registrationSchema"
      using validate_other[of k is_email obj]
      by (cases "k \<in> fst ` set registrationSchema") simp_all
    then show "k \<in> ?K" unfolding schema_key_set .
  qed
  show "?K \<subseteq> ?D"
    using empty_form_errors[OF assms, of is_email] by (simp add: dom_def)
qed

text \<open>
  C6. Validating a record with all fields empty produces an error for every one of the
  seven fields (firstName, lastName, gender, country, email, phone, acceptTerms) at
  once; each field is validated independently of the others, and what is reported for
  it is its first failing rule, if it has one.
\<close>

theorem validate_all_fields:
  "(all_fields_empty obj \<longrightarrow>
      dom (validate is_email obj)
        = {''firstName'', ''lastName'', ''gender'', ''country'', ''email'', ''phone'', ''acceptTerms''})
   \<and> ((k, t) \<in> set registrationSchema \<longrightarrow>
      validate is_email obj k = first_issue (issues_of is_email t (get_field obj k)))"
  using empty_form_error_keys[of obj is_email] validate_field[of k t is_email obj] by simp

theorem validate_all_fields_witness:
  "all_fields_empty [(''firstName'', Str ''''), (''lastName'', Str ''''), (''email'', Str ''''),
                     (''acceptTerms'', Bool False)]
   \<and> dom (validate (\<lambda>s. CHR ''@'' \<in> set s)
             [(''firstName'', Str ''''), (''lastName'', Str ''''), (''email'', Str ''''),
              (''acceptTerms'', Bool False)])
       = {''firstName'', ''lastName'', ''gender'', ''country'', ''email'', ''phone'', ''acceptTerms''}
   \<and> (''email'', ZString [Min 1 ''Email is required'', Email ''Please enter a valid email address''])
       \<in> set registrationSchema
   \<and> validate (\<lambda>s. CHR ''@'' \<in> set s)
        [(''firstName'', Str ''''), (''lastName'', Str ''''), (''email'', Str ''''),
         (''acceptTerms'', Bool False)] ''email''
       = Some (Message ''Email is required'')"
  using validate_all_fields
    [of "[(''firstName'', Str ''''), (''lastName'', Str ''''), (''email'', Str ''''),
          (''acceptTerms'', Bool False)]"
        "\<lambda>s. CHR ''@'' \<in> set s" "''email''"
        "ZString [Min 1 ''Email is required'', Email ''Please enter a valid email address'']"]
  by (simp add: all_fields_empty_def is_blank_def get_field_def registrationSchema_def first_issue_def)

end
